theory Spec2Isabelle
  imports Complex_Main
begin

section \<open>Python values\<close>

text \<open>
  The floats the program computes with are modelled as real numbers, without rounding.
  The floats a client sends are values of \<open>pyfloat\<close>, which has the infinities and
  NaN. Exceptions are values of \<open>pyerr\<close>.
\<close>

datatype pyerr =
    TypeError
  | ValueError
  | ZeroDivisionError
  | RuntimeError
  | AttributeError
  | OverflowError

datatype pyfloat = Finite real | PosInf | NegInf | NaN

section \<open>sensors.py: module state\<close>

text \<open>One entry of \<open>_baseline_samples\<close>: the dict with keys time, hr, eda, hrv.\<close>

record baseline_sample =
  b_time :: real
  b_hr :: real
  b_eda :: real
  b_hrv :: real

text \<open>
  The module-level variables of sensors.py that are assigned somewhere in the module.
  The ones that are never assigned are the constants below.
\<close>

record sensors =
  current_time :: real
  scenario :: string
  hr_history :: "real list"
  baseline_computed :: bool
  baseline_hr :: real
  baseline_eda :: real
  baseline_hrv :: real
  baseline_samples :: "baseline_sample list"

definition base_hr :: real where
  "base_hr = 75"

definition base_eda :: real where
  "base_eda = 2"

definition hrv_window_size :: nat where
  "hrv_window_size = 20"

definition baseline_window_seconds :: real where
  "baseline_window_seconds = 60"

definition resting_period_seconds :: real where
  "resting_period_seconds = 180"

text \<open>The values of the module variables when sensors.py is imported.\<close>

definition initial_sensors :: sensors where
  "initial_sensors =
     \<lparr>current_time = 0, scenario = ''mixed'', hr_history = [],
      baseline_computed = False, baseline_hr = 75, baseline_eda = 2, baseline_hrv = 50,
      baseline_samples = []\<rparr>"

section \<open>sensors.py: signal generation\<close>

definition clamp :: "real \<Rightarrow> real \<Rightarrow> real \<Rightarrow> real" where
  "clamp v min_val max_val = max min_val (min v max_val)"

text \<open>
  \<open>np.random.normal(loc, scale)\<close> raises ValueError on a negative scale; otherwise it
  returns a draw. The argument \<open>normal\<close> is the generator: \<open>normal loc scale\<close> is the
  value it draws at this call.
\<close>

definition np_random_normal :: "(real \<Rightarrow> real \<Rightarrow> real) \<Rightarrow> real \<Rightarrow> real \<Rightarrow> pyerr + real" where
  "np_random_normal normal loc scale =
     (if scale < 0 then Inl ValueError else Inr (normal loc scale))"

text \<open>
  The scenario chain of \<open>get_hr\<close>: \<open>base\<close>, \<open>slow_variation\<close>, \<open>fast_variation\<close> and
  the scale of the noise drawn in that branch.
\<close>

definition hr_components :: "string \<Rightarrow> real \<Rightarrow> real \<times> real \<times> real \<times> real" where
  "hr_components scen t =
     (if scen = ''baseline'' then
        (base_hr, 3 * sin (2 * pi * t / 45), 2 * sin (2 * pi * t / 12), 1.5)
      else if scen = ''stress_buildup'' then
        (let stress_factor = min (t / 30) 1 in
           (base_hr + stress_factor * 20, 2 * sin (2 * pi * t / 30), 3 * sin (2 * pi * t / 8),
            2 + stress_factor))
      else if scen = ''recovery'' then
        (if t < 10 then
           (let stress_factor = 1 - t / 10 in
              (base_hr + stress_factor * 15, 3 * sin (2 * pi * t / 25),
               2 * sin (2 * pi * t / 10), 2))
         else
           (base_hr, 2 * sin (2 * pi * t / 40), 1.5 * sin (2 * pi * t / 12), 1.2))
      else
        (if t < 20 then
           (base_hr, 3 * sin (2 * pi * t / 45), 2 * sin (2 * pi * t / 12), 1.5)
         else if t < 40 then
           (let stress_factor = (t - 20) / 20 in
              (base_hr + stress_factor * 25, 4 * sin (2 * pi * t / 20),
               3 * sin (2 * pi * t / 6), 2.5 + stress_factor))
         else
           (let recovery_factor = min ((t - 40) / 20) 1 in
              (base_hr + (1 - recovery_factor) * 20, 2 * sin (2 * pi * t / 35),
               2 * sin (2 * pi * t / 12), 1.8))))"

text \<open>
  \<open>get_hr\<close> draws the noise, clamps the sum, appends it to \<open>_hr_history\<close> and keeps the
  last \<open>_hrv_window_size\<close> entries. It returns the value and the updated module state;
  when the draw raises, nothing has been assigned.
\<close>

definition get_hr :: "(real \<Rightarrow> real \<Rightarrow> real) \<Rightarrow> sensors \<Rightarrow> pyerr + real \<times> sensors" where
  "get_hr normal s =
     (let (base, slow_variation, fast_variation, scale) =
            hr_components (scenario s) (current_time s)
      in case np_random_normal normal 0 scale of
           Inl e \<Rightarrow> Inl e
         | Inr noise \<Rightarrow>
             (let hr = clamp (base + slow_variation + fast_variation + noise) 50 180;
                  h = hr_history s @ [hr];
                  h' = (if length h > hrv_window_size
                        then drop (length h - hrv_window_size) h else h)
              in Inr (hr, s\<lparr>hr_history := h'\<rparr>)))"

text \<open>The scenario chain of \<open>get_eda\<close>, in the same form.\<close>

definition eda_components :: "string \<Rightarrow> real \<Rightarrow> real \<times> real \<times> real \<times> real" where
  "eda_components scen t =
     (if scen = ''baseline'' then
        (base_eda, 0.3 * sin (2 * pi * t / 60), 0.2 * sin (2 * pi * t / 25), 0.1)
      else if scen = ''stress_buildup'' then
        (let stress_factor = min (t / 45) 1 in
           (base_eda + stress_factor * 2, 0.4 * sin (2 * pi * t / 40),
            0.3 * sin (2 * pi * t / 15), 0.15 + stress_factor * 0.1))
      else if scen = ''recovery'' then
        (if t < 20 then
           (let stress_factor = 1 - t / 20 in
              (base_eda + stress_factor * 1.8, 0.4 * sin (2 * pi * t / 35),
               0.25 * sin (2 * pi * t / 18), 0.12))
         else
           (base_eda, 0.25 * sin (2 * pi * t / 55), 0.15 * sin (2 * pi * t / 28), 0.08))
      else
        (if t < 20 then
           (base_eda, 0.3 * sin (2 * pi * t / 60), 0.2 * sin (2 * pi * t / 25), 0.1)
         else if t < 40 then
           (let stress_factor = (t - 20) / 30 in
              (base_eda + stress_factor * 2.5, 0.5 * sin (2 * pi * t / 30),
               0.4 * sin (2 * pi * t / 12), 0.2 + stress_factor * 0.1))
         else
           (let recovery_factor = min ((t - 40) / 30) 1 in
              (base_eda + (1 - recovery_factor) * 2.2, 0.35 * sin (2 * pi * t / 45),
               0.25 * sin (2 * pi * t / 20), 0.12))))"

definition get_eda :: "(real \<Rightarrow> real \<Rightarrow> real) \<Rightarrow> sensors \<Rightarrow> pyerr + real" where
  "get_eda normal s =
     (let (base, slow_variation, medium_variation, scale) =
            eda_components (scenario s) (current_time s)
      in case np_random_normal normal 0 scale of
           Inl e \<Rightarrow> Inl e
         | Inr noise \<Rightarrow> Inr (clamp (base + slow_variation + medium_variation + noise) 0.1 10))"

section \<open>sensors.py: heart-rate variability\<close>

text \<open>
  \<open>60000 / hr\<close> raises ZeroDivisionError on a zero entry; the comprehension over
  \<open>range(len(rr_intervals)-1)\<close> reads the list by index; \<open>variance ** 0.5\<close> is the
  power function.
\<close>

definition get_hrv :: "sensors \<Rightarrow> pyerr + real" where
  "get_hrv s =
     (let h = hr_history s in
      if length h < 2 then Inr 50
      else if 0 \<in> set h then Inl ZeroDivisionError
      else
        (let rr_intervals = map (\<lambda>hr. 60000 / hr) h;
             nn_intervals = map (\<lambda>i. \<bar>rr_intervals ! (i + 1) - rr_intervals ! i\<bar>)
                               [0 ..< length rr_intervals - 1]
         in if length nn_intervals = 0 then Inr 50
            else
              (let mean_nn = sum_list nn_intervals / real (length nn_intervals);
                   variance = sum_list (map (\<lambda>nn. (nn - mean_nn) ^ 2) nn_intervals)
                                / real (length nn_intervals);
                   sdnn = variance powr (1 / 2)
               in Inr (clamp sdnn 10 200))))"

text \<open>
  The same quantity in the words of the specification: the population standard deviation
  of the absolute differences between consecutive RR intervals.
\<close>

definition rr_interval :: "real \<Rightarrow> real" where
  "rr_interval hr = 60000 / hr"

fun successive_differences :: "real list \<Rightarrow> real list" where
  "successive_differences (a # b # xs) = \<bar>b - a\<bar> # successive_differences (b # xs)"
| "successive_differences xs = []"

definition mean :: "real list \<Rightarrow> real" where
  "mean xs = sum_list xs / real (length xs)"

definition population_sd :: "real list \<Rightarrow> real" where
  "population_sd xs = sqrt (sum_list (map (\<lambda>x. (x - mean xs) ^ 2) xs) / real (length xs))"

definition sdnn_spec :: "real list \<Rightarrow> real" where
  "sdnn_spec h = population_sd (successive_differences (map rr_interval h))"

section \<open>sensors.py: stress index\<close>

text \<open>
  \<open>compute_stress_index\<close> with an explicit \<open>hrv\<close>; the optional argument is
  \<open>None\<close> only when the caller leaves it out, and then \<open>get_hrv\<close> supplies it.
\<close>

definition compute_stress_index ::
  "real \<Rightarrow> real \<Rightarrow> real \<Rightarrow> real \<Rightarrow> real \<Rightarrow> real \<Rightarrow> real" where
  "compute_stress_index hr eda hrv w_hr w_eda w_hrv =
     (let norm_hr = clamp ((hr - 45) / (180 - 45)) 0 1;
          norm_eda = clamp (eda / 10) 0 1;
          norm_hrv = clamp (1 - ((hrv - 10) / (200 - 10))) 0 1
      in (w_hr * norm_hr + w_eda * norm_eda + w_hrv * norm_hrv) * 100)"

definition compute_stress_index_default :: "real \<Rightarrow> real \<Rightarrow> real \<Rightarrow> real" where
  "compute_stress_index_default hr eda hrv = compute_stress_index hr eda hrv 0.33 0.33 0.34"

section \<open>sensors.py: clock and scenario\<close>

definition advance_time :: "real \<Rightarrow> sensors \<Rightarrow> sensors" where
  "advance_time dt s = s\<lparr>current_time := current_time s + dt\<rparr>"

definition reset_time :: "sensors \<Rightarrow> sensors" where
  "reset_time s = s\<lparr>current_time := 0\<rparr>"

definition valid_scenarios :: "string list" where
  "valid_scenarios = [''baseline'', ''stress_buildup'', ''recovery'', ''mixed'']"

definition set_scenario :: "string \<Rightarrow> sensors \<Rightarrow> pyerr + sensors" where
  "set_scenario scen s =
     (if scen \<in> set valid_scenarios then Inr (s\<lparr>scenario := scen\<rparr>) else Inl ValueError)"

definition get_current_time :: "sensors \<Rightarrow> real" where
  "get_current_time s = current_time s"

definition get_current_scenario :: "sensors \<Rightarrow> string" where
  "get_current_scenario s = scenario s"

section \<open>sensors.py: baseline protocol\<close>

definition is_in_resting_period :: "sensors \<Rightarrow> bool" where
  "is_in_resting_period s = (current_time s < resting_period_seconds)"

definition is_in_baseline_window :: "sensors \<Rightarrow> bool" where
  "is_in_baseline_window s =
     (let baseline_start = resting_period_seconds;
          baseline_end = resting_period_seconds + baseline_window_seconds
      in baseline_start \<le> current_time s \<and> current_time s < baseline_end)"

definition should_collect_baseline_sample :: "sensors \<Rightarrow> bool" where
  "should_collect_baseline_sample s = (is_in_baseline_window s \<and> \<not> baseline_computed s)"

definition collect_baseline_sample :: "real \<Rightarrow> real \<Rightarrow> real \<Rightarrow> sensors \<Rightarrow> sensors" where
  "collect_baseline_sample hr eda hrv s =
     (let sample = \<lparr>b_time = current_time s, b_hr = hr, b_eda = eda, b_hrv = hrv\<rparr>
      in s\<lparr>baseline_samples := baseline_samples s @ [sample]\<rparr>)"

text \<open>\<open>compute_baseline_values\<close> returns its boolean and the updated module state.\<close>

definition compute_baseline_values :: "sensors \<Rightarrow> bool \<times> sensors" where
  "compute_baseline_values s =
     (if length (baseline_samples s) < 10 then (False, s)
      else
        (let hr_values = map b_hr (baseline_samples s);
             eda_values = map b_eda (baseline_samples s);
             hrv_values = map b_hrv (baseline_samples s)
         in (True,
             s\<lparr>baseline_hr := sum_list hr_values / real (length hr_values),
               baseline_eda := sum_list eda_values / real (length eda_values),
               baseline_hrv := sum_list hrv_values / real (length hrv_values),
               baseline_computed := True\<rparr>)))"

text \<open>
  The dict of \<open>get_baseline_status\<close>; the three baseline values are present only when
  the baseline is computed.
\<close>

record baseline_status =
  st_current_time :: real
  st_resting_period_seconds :: real
  st_baseline_window_seconds :: real
  in_resting_period :: bool
  in_baseline_window :: bool
  st_baseline_computed :: bool
  baseline_samples_collected :: nat
  st_baseline_values :: "(real \<times> real \<times> real) option"

definition get_baseline_status :: "sensors \<Rightarrow> baseline_status" where
  "get_baseline_status s =
     \<lparr>st_current_time = current_time s,
      st_resting_period_seconds = resting_period_seconds,
      st_baseline_window_seconds = baseline_window_seconds,
      in_resting_period = is_in_resting_period s,
      in_baseline_window = is_in_baseline_window s,
      st_baseline_computed = baseline_computed s,
      baseline_samples_collected = length (baseline_samples s),
      st_baseline_values =
        (if baseline_computed s then Some (baseline_hr s, baseline_eda s, baseline_hrv s)
         else None)\<rparr>"

definition reset_baseline_protocol :: "sensors \<Rightarrow> sensors" where
  "reset_baseline_protocol s =
     s\<lparr>baseline_computed := False, baseline_samples := [], current_time := 0,
       baseline_hr := 75, baseline_eda := 2, baseline_hrv := 50\<rparr>"

definition is_baseline_protocol_complete :: "sensors \<Rightarrow> bool" where
  "is_baseline_protocol_complete s =
     (current_time s \<ge> resting_period_seconds + baseline_window_seconds
      \<and> baseline_computed s)"

text \<open>
  The operations of sensors.py that assign a module variable, as one step function.
  Where \<open>get_hr\<close> or \<open>set_scenario\<close> raises, the state is as it was.
\<close>

datatype sensors_op =
    Op_get_hr "real \<Rightarrow> real \<Rightarrow> real"
  | Op_advance_time real
  | Op_reset_time
  | Op_set_scenario string
  | Op_collect_baseline_sample real real real
  | Op_compute_baseline_values
  | Op_reset_baseline_protocol

fun run_op :: "sensors_op \<Rightarrow> sensors \<Rightarrow> sensors" where
  "run_op (Op_get_hr normal) s = (case get_hr normal s of Inl e \<Rightarrow> s | Inr (hr, s') \<Rightarrow> s')"
| "run_op (Op_advance_time dt) s = advance_time dt s"
| "run_op Op_reset_time s = reset_time s"
| "run_op (Op_set_scenario scen) s = (case set_scenario scen s of Inl e \<Rightarrow> s | Inr s' \<Rightarrow> s')"
| "run_op (Op_collect_baseline_sample hr eda hrv) s = collect_baseline_sample hr eda hrv s"
| "run_op Op_compute_baseline_values s = snd (compute_baseline_values s)"
| "run_op Op_reset_baseline_protocol s = reset_baseline_protocol s"

fun run_ops :: "sensors_op list \<Rightarrow> sensors \<Rightarrow> sensors" where
  "run_ops [] s = s"
| "run_ops (op # ops) s = run_ops ops (run_op op s)"

section \<open>sim_connector.py: the sensor capability\<close>

text \<open>The dict a connector's \<open>read\<close> returns.\<close>

record reading =
  r_hr :: real
  r_eda :: real
  r_hrv :: real

text \<open>
  A connector's \<open>read\<close>, on a connector state \<open>'c\<close>: it returns the reading or raises,
  and may assign the connector's own fields and the module variables of sensors.py
  (the simulator does).
\<close>

type_synonym 'c reader = "'c \<Rightarrow> sensors \<Rightarrow> (pyerr + reading) \<times> 'c \<times> sensors"

text \<open>
  \<open>SimConnector.read\<close>; the connector state is its \<open>_connected\<close> flag. The two
  generators are the draws of \<open>get_hr\<close> and of \<open>get_eda\<close>.
\<close>

definition sim_read ::
  "(real \<Rightarrow> real \<Rightarrow> real) \<Rightarrow> (real \<Rightarrow> real \<Rightarrow> real) \<Rightarrow> bool reader" where
  "sim_read normal_hr normal_eda connected_flag s =
     (if \<not> connected_flag then (Inl RuntimeError, connected_flag, s)
      else
        (case get_hr normal_hr s of
           Inl e \<Rightarrow> (Inl e, connected_flag, s)
         | Inr (hr, s1) \<Rightarrow>
             (case get_eda normal_eda s1 of
                Inl e \<Rightarrow> (Inl e, connected_flag, s1)
              | Inr eda \<Rightarrow>
                  (case get_hrv s1 of
                     Inl e \<Rightarrow> (Inl e, connected_flag, s1)
                   | Inr hrv \<Rightarrow>
                       (Inr \<lparr>r_hr = hr, r_eda = eda, r_hrv = hrv\<rparr>, connected_flag, s1)))))"

section \<open>biofeedback_server.py: the server and one sample\<close>

record sample =
  timestamp :: string
  s_hr :: real
  s_eda :: real
  s_hrv :: real
  s_stress :: real
  s_scenario :: string

text \<open>
  The fields of \<open>BiofeedbackServer\<close>, with the module state of sensors.py that its
  methods read and assign. \<open>'w\<close> is the type of websocket handles.
\<close>

record ('w, 'c) server =
  host :: string
  port :: nat
  stream_frequency :: real
  stream_interval :: real
  connector :: 'c
  subscribers :: "'w set"
  client_counter :: nat
  session_data :: "sample list"
  running :: bool
  start_time :: "real option"
  sens :: sensors

text \<open>
  \<open>__init__\<close>: \<open>server_fields\<close> are its assignments; \<open>1.0 / stream_frequency\<close> raises
  on a zero frequency. The connector and the module state of sensors.py are given.
\<close>

definition server_fields :: "string \<Rightarrow> nat \<Rightarrow> real \<Rightarrow> 'c \<Rightarrow> sensors \<Rightarrow> ('w, 'c) server" where
  "server_fields h p f c s =
     \<lparr>host = h, port = p, stream_frequency = f, stream_interval = 1 / f, connector = c,
      subscribers = {}, client_counter = 0, session_data = [], running = False,
      start_time = None, sens = s\<rparr>"

definition new_server ::
  "string \<Rightarrow> nat \<Rightarrow> real \<Rightarrow> 'c \<Rightarrow> sensors \<Rightarrow> pyerr + ('w, 'c) server" where
  "new_server h p f c s =
     (if f = 0 then Inl ZeroDivisionError else Inr (server_fields h p f c s))"

text \<open>\<open>round(x, n)\<close>: to \<open>n\<close> decimals, a tie to the even neighbour.\<close>

definition py_round :: "real \<Rightarrow> nat \<Rightarrow> real" where
  "py_round x n =
     (let y = x * 10 ^ n; f = \<lfloor>y\<rfloor>
      in (if y - of_int f < 1 / 2 then of_int f
          else if y - of_int f > 1 / 2 then of_int (f + 1)
          else if even f then of_int f else of_int (f + 1)) / 10 ^ n)"

text \<open>\<open>len\<close> applied to an \<open>int\<close> raises TypeError, whatever the integer.\<close>

definition len_of_int :: "nat \<Rightarrow> pyerr + nat" where
  "len_of_int n = Inl TypeError"

text \<open>
  The baseline block of \<open>generate_biofeedback_sample\<close> (lines 101 to 113), on the
  module state after the read. The argument of \<open>logger.info\<close> is evaluated after the
  sample is collected and before the threshold test.
\<close>

definition baseline_block :: "reading \<Rightarrow> sensors \<Rightarrow> (pyerr + unit) \<times> sensors" where
  "baseline_block v s =
     (let baseline_status = get_baseline_status s in
      if should_collect_baseline_sample s then
        (let s1 = collect_baseline_sample (r_hr v) (r_eda v) (r_hrv v) s in
         case len_of_int (baseline_samples_collected baseline_status) of
           Inl e \<Rightarrow> (Inl e, s1)
         | Inr n \<Rightarrow>
             (if baseline_samples_collected baseline_status \<ge> 10
              then (Inr (), snd (compute_baseline_values s1))
              else (Inr (), s1)))
      else (Inr (), s))"

text \<open>
  \<open>generate_biofeedback_sample\<close>: \<open>rd\<close> is the connector's \<open>read\<close> and \<open>now\<close> the
  wall-clock timestamp. An exception leaves the assignments made before it.
\<close>

definition generate_biofeedback_sample ::
  "'c reader \<Rightarrow> string \<Rightarrow> ('w, 'c) server \<Rightarrow> (pyerr + sample) \<times> ('w, 'c) server" where
  "generate_biofeedback_sample rd now st =
     (case rd (connector st) (sens st) of
        (Inl e, c1, s1) \<Rightarrow> (Inl e, st\<lparr>connector := c1, sens := s1\<rparr>)
      | (Inr v, c1, s1) \<Rightarrow>
          (case baseline_block v s1 of
             (Inl e, s2) \<Rightarrow> (Inl e, st\<lparr>connector := c1, sens := s2\<rparr>)
           | (Inr u, s2) \<Rightarrow>
               (let stress = compute_stress_index_default (r_hr v) (r_eda v) (r_hrv v);
                    smp = \<lparr>timestamp = now,
                           s_hr = py_round (r_hr v) 1,
                           s_eda = py_round (r_eda v) 3,
                           s_hrv = py_round (r_hrv v) 1,
                           s_stress = py_round stress 1,
                           s_scenario = get_current_scenario s2\<rparr>;
                    s3 = advance_time (stream_interval st) s2
                in (Inr smp,
                    st\<lparr>connector := c1, sens := s3,
                       session_data := session_data st @ [smp]\<rparr>))))"

text \<open>\<open>n\<close> calls of \<open>generate_biofeedback_sample\<close> in a row, whatever each returns.\<close>

fun ticks :: "nat \<Rightarrow> 'c reader \<Rightarrow> string \<Rightarrow> ('w, 'c) server \<Rightarrow> ('w, 'c) server" where
  "ticks 0 rd now st = st"
| "ticks (Suc n) rd now st = ticks n rd now (snd (generate_biofeedback_sample rd now st))"

section \<open>biofeedback_server.py: the command dispatcher\<close>

text \<open>
  A decoded JSON document, as \<open>json.loads\<close> returns it: a number without fraction or
  exponent is an \<open>int\<close>, any other number a \<open>float\<close>, which the literals \<open>NaN\<close>,
  \<open>Infinity\<close> and \<open>-Infinity\<close> are too; an object is the dict from its keys.
\<close>

datatype json =
    JNull
  | JBool bool
  | JInt int
  | JFloat pyfloat
  | JStr string
  | JArr "json list"
  | JObj "string \<Rightarrow> json option"

text \<open>
  The least integer that \<open>float\<close> does not convert: it rounds to \<open>2 ^ 1024\<close>, beyond
  the largest double \<open>2 ^ 1024 - 2 ^ 971\<close>.
\<close>

definition float_overflow_bound :: int where
  "float_overflow_bound = 2 ^ 1024 - 2 ^ 970"

text \<open>
  \<open>float(v)\<close> on a decoded value. An \<open>int\<close> of magnitude from the bound on raises
  OverflowError; a \<open>float\<close> is returned as it is, NaN included; \<open>None\<close>, a list and a
  dict raise TypeError. \<open>float_of_str\<close> is Python's conversion of a string, \<open>None\<close>
  where it raises ValueError; it gives NaN for \<open>nan\<close>.
\<close>

fun py_float :: "(string \<Rightarrow> pyfloat option) \<Rightarrow> json \<Rightarrow> pyerr + pyfloat" where
  "py_float float_of_str (JInt n) =
     (if \<bar>n\<bar> \<ge> float_overflow_bound then Inl OverflowError else Inr (Finite (of_int n)))"
| "py_float float_of_str (JFloat x) = Inr x"
| "py_float float_of_str (JBool b) = Inr (Finite (if b then 1 else 0))"
| "py_float float_of_str (JStr t) =
     (case float_of_str t of None \<Rightarrow> Inl ValueError | Some x \<Rightarrow> Inr x)"
| "py_float float_of_str JNull = Inl TypeError"
| "py_float float_of_str (JArr xs) = Inl TypeError"
| "py_float float_of_str (JObj d) = Inl TypeError"

text \<open>
  \<open>str.lower\<close> on the ASCII letters: the codes 65 to 90 have bit 5 clear, and setting it
  adds 32.
\<close>

definition lower_char :: "char \<Rightarrow> char" where
  "lower_char c =
     (if 65 \<le> (of_char c :: nat) \<and> (of_char c :: nat) \<le> 90
      then (case c of Char b0 b1 b2 b3 b4 b5 b6 b7 \<Rightarrow> Char b0 b1 b2 b3 b4 True b6 b7)
      else c)"

definition lower :: "string \<Rightarrow> string" where
  "lower t = map lower_char t"

text \<open>
  The responses, each with the values its JSON object carries; \<open>response_type\<close> is the
  \<open>type\<close> field.
\<close>

datatype response =
    Sample_response sample
  | Subscription_confirmed nat real
  | Unsubscription_confirmed
  | Status_response bool real nat real nat
  | Frequency_changed real pyfloat pyfloat
  | Error_invalid_frequency pyfloat real
  | Error_invalid_frequency_value "json option" real
  | Scenario_changed string
  | Error_set_scenario_failed pyerr
  | Error_invalid_scenario json
  | Error_unknown_command string
  | Error_invalid_json
  | Error_server pyerr

fun response_type :: "response \<Rightarrow> string" where
  "response_type (Sample_response smp) = ''sample''"
| "response_type (Subscription_confirmed n f) = ''subscription_confirmed''"
| "response_type Unsubscription_confirmed = ''unsubscription_confirmed''"
| "response_type (Status_response r u n f k) = ''status''"
| "response_type (Frequency_changed old_f new_f i) = ''frequency_changed''"
| "response_type (Error_invalid_frequency hz f) = ''error''"
| "response_type (Error_invalid_frequency_value v f) = ''error''"
| "response_type (Scenario_changed scen) = ''scenario_changed''"
| "response_type (Error_set_scenario_failed e) = ''error''"
| "response_type (Error_invalid_scenario v) = ''error''"
| "response_type (Error_unknown_command c) = ''error''"
| "response_type Error_invalid_json = ''error''"
| "response_type (Error_server e) = ''error''"

text \<open>What the handler reads from outside the server.\<close>

record 'c env =
  env_read :: "'c reader"
  env_now_iso :: string
  env_time :: real
  env_float_of_str :: "string \<Rightarrow> pyfloat option"

text \<open>
  The server after a command. The record holds finite floats; \<open>Server_with_nan_config st\<close>
  is the server \<open>st\<close> with NaN assigned to \<open>stream_frequency\<close> and to
  \<open>stream_interval\<close>.
\<close>

datatype ('w, 'c) server_after =
    Server_is "('w, 'c) server"
  | Server_with_nan_config "('w, 'c) server"

text \<open>
  The \<open>set_frequency\<close> branch. \<open>Frequency_changed\<close> carries old_frequency_hz,
  new_frequency_hz and stream_interval_seconds; \<open>Error_invalid_frequency\<close> carries the
  rejected value of the message and current_frequency_hz. The handler of the branch
  catches ValueError and TypeError; any other exception reaches the last handler.
  In the guard \<open>hz < 0.1 or hz > 50.0\<close> the first comparison holds of \<open>-inf\<close>, the
  second of \<open>inf\<close>, and neither of NaN, which is then assigned; \<open>1.0 / hz\<close> of NaN is
  NaN.
\<close>

definition set_frequency_command ::
  "'c env \<Rightarrow> (string \<Rightarrow> json option) \<Rightarrow> ('w, 'c) server
     \<Rightarrow> response \<times> ('w, 'c) server_after" where
  "set_frequency_command env request st =
     (case py_float (env_float_of_str env)
             (case request ''hz'' of
                None \<Rightarrow> JFloat (Finite (stream_frequency st))
              | Some v \<Rightarrow> v) of
        Inl e \<Rightarrow>
          (if e = ValueError \<or> e = TypeError then
             (Error_invalid_frequency_value (request ''hz'') (stream_frequency st), Server_is st)
           else (Error_server e, Server_is st))
      | Inr (Finite hz) \<Rightarrow>
          (if hz < 0.1 \<or> hz > 50 then
             (Error_invalid_frequency (Finite hz) (stream_frequency st), Server_is st)
           else
             (let old_frequency = stream_frequency st;
                  st' = st\<lparr>stream_frequency := hz, stream_interval := 1 / hz\<rparr>
              in (Frequency_changed old_frequency (Finite (stream_frequency st'))
                    (Finite (stream_interval st')),
                  Server_is st')))
      | Inr PosInf \<Rightarrow> (Error_invalid_frequency PosInf (stream_frequency st), Server_is st)
      | Inr NegInf \<Rightarrow> (Error_invalid_frequency NegInf (stream_frequency st), Server_is st)
      | Inr NaN \<Rightarrow> (Frequency_changed (stream_frequency st) NaN NaN, Server_with_nan_config st))"

definition set_scenario_command ::
  "(string \<Rightarrow> json option) \<Rightarrow> ('w, 'c) server \<Rightarrow> response \<times> ('w, 'c) server" where
  "set_scenario_command request st =
     (case (case request ''scenario'' of None \<Rightarrow> JStr [] | Some v \<Rightarrow> v) of
        JStr scen \<Rightarrow>
          (if scen \<in> set [''baseline'', ''stress_buildup'', ''recovery'', ''mixed''] then
             (case set_scenario scen (sens st) of
                Inr s' \<Rightarrow> (Scenario_changed scen, st\<lparr>sens := s'\<rparr>)
              | Inl e \<Rightarrow> (Error_set_scenario_failed e, st))
           else (Error_invalid_scenario (JStr scen), st))
      | v \<Rightarrow> (Error_invalid_scenario v, st))"

definition status_command :: "'c env \<Rightarrow> ('w, 'c) server \<Rightarrow> response \<times> ('w, 'c) server" where
  "status_command env st =
     (let uptime = (case start_time st of
                      None \<Rightarrow> 0
                    | Some t0 \<Rightarrow> if t0 = 0 then 0 else env_time env - t0)
      in (Status_response (running st) (py_round uptime 1) (card (subscribers st))
            (stream_frequency st) (length (session_data st)),
          st))"

text \<open>
  \<open>handle_client_message\<close>: \<open>msg\<close> is the result of \<open>json.loads\<close>, \<open>None\<close> where it
  raises JSONDecodeError. A document that is not an object has no \<open>get\<close>, and a command
  that is not a string has no \<open>lower\<close>: AttributeError, caught by the last handler.
\<close>

definition handle_client_message ::
  "'c env \<Rightarrow> ('w, 'c) server \<Rightarrow> 'w \<Rightarrow> json option \<Rightarrow> response \<times> ('w, 'c) server_after" where
  "handle_client_message env st websocket msg =
     (case msg of
        None \<Rightarrow> (Error_invalid_json, Server_is st)
      | Some (JObj request) \<Rightarrow>
          (case (case request ''command'' of None \<Rightarrow> JStr [] | Some v \<Rightarrow> v) of
             JStr c \<Rightarrow>
               (let command = lower c in
                if command = ''once'' then
                  (case generate_biofeedback_sample (env_read env) (env_now_iso env) st of
                     (Inr smp, st') \<Rightarrow> (Sample_response smp, Server_is st')
                   | (Inl e, st') \<Rightarrow> (Error_server e, Server_is st'))
                else if command = ''subscribe'' then
                  (let st' = st\<lparr>subscribers := insert websocket (subscribers st),
                                client_counter := client_counter st + 1\<rparr>
                   in (Subscription_confirmed (client_counter st') (stream_frequency st'),
                       Server_is st'))
                else if command = ''unsubscribe'' then
                  (Unsubscription_confirmed,
                   Server_is (st\<lparr>subscribers := subscribers st - {websocket}\<rparr>))
                else if command = ''status'' then apsnd Server_is (status_command env st)
                else if command = ''set_frequency'' then set_frequency_command env request st
                else if command = ''set_scenario'' then
                  apsnd Server_is (set_scenario_command request st)
                else (Error_unknown_command command, Server_is st))
           | v \<Rightarrow> (Error_server AttributeError, Server_is st))
      | Some v \<Rightarrow> (Error_server AttributeError, Server_is st))"

section \<open>biofeedback_server.py: the broadcast loop\<close>

text \<open>The stream message: the sample with frequency_hz and connected_clients.\<close>

datatype message = Stream_message sample real nat

text \<open>What \<open>websocket.send\<close> does: it returns, or raises one of the two caught classes.\<close>

datatype send_result = Sent | ConnectionClosed | Send_exception

text \<open>The effects of a fan-out pass on its subscribers and on the registry, in order.\<close>

datatype 'w event = Send_attempt 'w message | Discard 'w

text \<open>
  The loop over \<open>self.subscribers.copy()\<close>: \<open>snapshot\<close> lists the copy in the order of
  iteration, \<open>send w m\<close> is the outcome of sending \<open>m\<close> to \<open>w\<close>. The loop assigns
  \<open>disconnected_clients\<close> only.
\<close>

fun send_loop ::
  "('w \<Rightarrow> message \<Rightarrow> send_result) \<Rightarrow> message \<Rightarrow> 'w list \<Rightarrow> 'w set \<Rightarrow> 'w event list
     \<Rightarrow> 'w set \<times> 'w event list" where
  "send_loop send m [] disconnected_clients evs = (disconnected_clients, evs)"
| "send_loop send m (w # ws) disconnected_clients evs =
     (case send w m of
        Sent \<Rightarrow> send_loop send m ws disconnected_clients (evs @ [Send_attempt w m])
      | ConnectionClosed \<Rightarrow>
          send_loop send m ws (insert w disconnected_clients) (evs @ [Send_attempt w m])
      | Send_exception \<Rightarrow>
          send_loop send m ws (insert w disconnected_clients) (evs @ [Send_attempt w m]))"

text \<open>The loop over \<open>disconnected_clients\<close>, listed in the order of iteration.\<close>

fun discard_loop :: "'w list \<Rightarrow> 'w set \<Rightarrow> 'w event list \<Rightarrow> 'w set \<times> 'w event list" where
  "discard_loop [] subs evs = (subs, evs)"
| "discard_loop (w # ws) subs evs = discard_loop ws (subs - {w}) (evs @ [Discard w])"

text \<open>
  One fan-out pass. \<open>order\<close> gives the order in which Python iterates the set of
  failed subscribers.
\<close>

definition fan_out ::
  "('w set \<Rightarrow> 'w list) \<Rightarrow> ('w \<Rightarrow> message \<Rightarrow> send_result) \<Rightarrow> message \<Rightarrow> 'w list \<Rightarrow> 'w set
     \<Rightarrow> 'w set \<times> 'w event list" where
  "fan_out order send m snapshot subs =
     (let (disconnected_clients, evs) = send_loop send m snapshot {} []
      in discard_loop (order disconnected_clients) subs evs)"

text \<open>
  One cycle of the \<open>while self.running\<close> loop: how it ends (the interval handed to
  \<open>asyncio.sleep\<close>, or the exception that leaves the loop), the server and the events.
  The copy of the registry and the set of failed subscribers are two set objects, each
  iterated in an order of its own: \<open>copy_order\<close> and \<open>failed_order\<close>.
\<close>

datatype cycle_end = Sleep real | Raised pyerr

definition broadcast_cycle ::
  "'c reader \<Rightarrow> string \<Rightarrow> ('w set \<Rightarrow> 'w list) \<Rightarrow> ('w set \<Rightarrow> 'w list)
     \<Rightarrow> ('w \<Rightarrow> message \<Rightarrow> send_result)
     \<Rightarrow> ('w, 'c) server \<Rightarrow> cycle_end \<times> ('w, 'c) server \<times> 'w event list" where
  "broadcast_cycle rd now copy_order failed_order send st =
     (if subscribers st \<noteq> {} then
        (case generate_biofeedback_sample rd now st of
           (Inl e, st1) \<Rightarrow> (Raised e, st1, [])
         | (Inr smp, st1) \<Rightarrow>
             (let m = Stream_message smp (stream_frequency st1) (card (subscribers st1));
                  (subs, evs) = fan_out failed_order send m (copy_order (subscribers st1))
                                  (subscribers st1);
                  st2 = st1\<lparr>subscribers := subs\<rparr>
              in (Sleep (stream_interval st2), st2, evs)))
      else (Sleep (stream_interval st), st, []))"

section \<open>The ServerConfig of the specification\<close>

text \<open>
  The data model's constraint on the configuration: the frequency lies in [0.1, 50] and
  the interval is its inverse.
\<close>

definition server_config_ok :: "('w, 'c) server \<Rightarrow> bool" where
  "server_config_ok st =
     (0.1 \<le> stream_frequency st \<and> stream_frequency st \<le> 50
      \<and> stream_interval st = 1 / stream_frequency st)"

section \<open>Concrete states\<close>

text \<open>
  A server on localhost:8765 with the simulator connected and a generator that always
  draws 0, at frequency \<open>f\<close> and virtual time \<open>t\<close>, with websockets numbered by \<open>nat\<close>.
\<close>

definition zero_noise :: "real \<Rightarrow> real \<Rightarrow> real" where
  "zero_noise mu sigma = 0"

definition sim_server :: "real \<Rightarrow> real \<Rightarrow> (nat, bool) server" where
  "sim_server f t = server_fields ''localhost'' 8765 f True (initial_sensors\<lparr>current_time := t\<rparr>)"

definition sim_env :: "bool env" where
  "sim_env =
     \<lparr>env_read = sim_read zero_noise zero_noise, env_now_iso = ''2025-08-01T00:00:00+00:00'',
      env_time = 0, env_float_of_str = (\<lambda>t. None)\<rparr>"

text \<open>A stream message at 10 Hz for three subscribers.\<close>

definition stream_message_10hz :: message where
  "stream_message_10hz =
     Stream_message
       \<lparr>timestamp = ''2025-08-01T00:00:00+00:00'', s_hr = 75, s_eda = 2, s_hrv = 50,
        s_stress = 40.8, s_scenario = ''mixed''\<rparr> 10 3"

text \<open>Ten baseline samples with hr 75, eda 2 and hrv 50, taken at virtual time 185.\<close>

definition ten_samples :: "baseline_sample list" where
  "ten_samples = replicate 10 \<lparr>b_time = 185, b_hr = 75, b_eda = 2, b_hrv = 50\<rparr>"

section \<open>Signal bounds\<close>

lemma clamp_bounds: "lo \<le> hi \<Longrightarrow> lo \<le> clamp v lo hi \<and> clamp v lo hi \<le> hi"
  by (simp add: clamp_def)

text \<open>From virtual time 0 on, the scale of the noise is not negative in any branch.\<close>

lemma hr_scale_nonneg:
  "0 \<le> t \<Longrightarrow> hr_components scen t = (b, sl, f, scale) \<Longrightarrow> 0 \<le> scale"
  by (auto simp: hr_components_def Let_def split: if_splits)

lemma eda_scale_nonneg:
  "0 \<le> t \<Longrightarrow> eda_components scen t = (b, sl, f, scale) \<Longrightarrow> 0 \<le> scale"
  by (auto simp: eda_components_def Let_def split: if_splits)

lemma get_hr_returns:
  assumes "0 \<le> current_time s"
  shows "\<exists>hr. 50 \<le> hr \<and> hr \<le> 180 \<and>
           get_hr normal s =
             Inr (hr, s\<lparr>hr_history :=
                    (if length (hr_history s @ [hr]) > hrv_window_size
                     then drop (length (hr_history s @ [hr]) - hrv_window_size)
                            (hr_history s @ [hr])
                     else hr_history s @ [hr])\<rparr>)"
proof -
  obtain b sl f scale where c: "hr_components (scenario s) (current_time s) = (b, sl, f, scale)"
    by (cases "hr_components (scenario s) (current_time s)") auto
  have "0 \<le> scale" using hr_scale_nonneg [OF assms c] .
  then show ?thesis
    using clamp_bounds [of 50 180 "b + sl + f + normal 0 scale"]
    by (simp add: get_hr_def c np_random_normal_def Let_def)
qed

lemma get_eda_returns:
  assumes "0 \<le> current_time s"
  shows "\<exists>eda. 0.1 \<le> eda \<and> eda \<le> 10 \<and> get_eda normal s = Inr eda"
proof -
  obtain b sl f scale where c: "eda_components (scenario s) (current_time s) = (b, sl, f, scale)"
    by (cases "eda_components (scenario s) (current_time s)") auto
  have "0 \<le> scale" using eda_scale_nonneg [OF assms c] .
  then show ?thesis
    using clamp_bounds [of "1 / 10" 10 "b + sl + f + normal 0 scale"]
    by (simp add: get_eda_def c np_random_normal_def Let_def)
qed

text \<open>
  C7: for every scenario string, every virtual time from 0 on and every generator,
  \<open>get_hr\<close> and \<open>get_eda\<close> return, and whenever they return, the heart rate is between
  50 and 180 and the EDA between 0.1 and 10.
\<close>

theorem signal_bounds:
  "(get_hr normal s = Inr (hr, s') \<longrightarrow> 50 \<le> hr \<and> hr \<le> 180)
   \<and> (get_eda normal s = Inr eda \<longrightarrow> 0.1 \<le> eda \<and> eda \<le> 10)
   \<and> (0 \<le> current_time s \<longrightarrow>
        (\<exists>hr s'. get_hr normal s = Inr (hr, s')) \<and> (\<exists>eda. get_eda normal s = Inr eda))"
proof (intro conjI impI)
  assume "get_hr normal s = Inr (hr, s')"
  then show "50 \<le> hr" "hr \<le> 180"
    by (auto simp: get_hr_def Let_def clamp_def split: prod.splits sum.splits)
next
  assume "get_eda normal s = Inr eda"
  then show "0.1 \<le> eda" "eda \<le> 10"
    by (auto simp: get_eda_def Let_def clamp_def split: prod.splits sum.splits)
next
  assume t: "0 \<le> current_time s"
  show "\<exists>hr s'. get_hr normal s = Inr (hr, s')"
    using get_hr_returns [OF t, of normal] by blast
  show "\<exists>eda. get_eda normal s = Inr eda"
    using get_eda_returns [OF t, of normal] by blast
qed

theorem signal_bounds_witness:
  "get_hr zero_noise initial_sensors = Inr (75, initial_sensors\<lparr>hr_history := [75]\<rparr>)
   \<and> (50::real) \<le> 75 \<and> (75::real) \<le> 180
   \<and> get_eda zero_noise initial_sensors = Inr 2
   \<and> (0.1::real) \<le> 2 \<and> (2::real) \<le> 10
   \<and> 0 \<le> current_time initial_sensors"
  using signal_bounds [of zero_noise initial_sensors 75 "initial_sensors\<lparr>hr_history := [75]\<rparr>" 2]
  by (simp add: get_hr_def get_eda_def hr_components_def eda_components_def
        np_random_normal_def initial_sensors_def zero_noise_def base_hr_def base_eda_def
        clamp_def Let_def hrv_window_size_def)

text \<open>
  What a returning \<open>get_hr\<close> assigns: the history only, which holds results of
  \<open>get_hr\<close>, so no entry is zero.
\<close>

lemma get_hr_result:
  assumes "get_hr normal s = Inr (hr, s')"
  shows "50 \<le> hr \<and> hr \<le> 180 \<and> s' = s\<lparr>hr_history := hr_history s'\<rparr>
         \<and> set (hr_history s') \<subseteq> insert hr (set (hr_history s))"
proof -
  obtain b sl f scale where c: "hr_components (scenario s) (current_time s) = (b, sl, f, scale)"
    by (cases "hr_components (scenario s) (current_time s)") auto
  have n: "np_random_normal normal 0 scale = Inr (normal 0 scale)"
    using assms by (auto simp: get_hr_def c np_random_normal_def split: if_splits)
  have hr: "hr = clamp (b + sl + f + normal 0 scale) 50 180"
    using assms by (simp add: get_hr_def c n Let_def)
  have s': "s' = s\<lparr>hr_history :=
                (if length (hr_history s @ [hr]) > hrv_window_size
                 then drop (length (hr_history s @ [hr]) - hrv_window_size) (hr_history s @ [hr])
                 else hr_history s @ [hr])\<rparr>"
    using assms by (auto simp: get_hr_def c n Let_def)
  have "set (drop k (hr_history s @ [hr])) \<subseteq> set (hr_history s @ [hr])" for k
    by (rule set_drop_subset)
  then have "set (hr_history s') \<subseteq> set (hr_history s @ [hr])"
    by (subst s') (simp del: drop_append)
  then show ?thesis
    using clamp_bounds [of 50 180 "b + sl + f + normal 0 scale"] hr
    by (auto simp: s')
qed

lemma get_hr_history:
  assumes "list_all (\<lambda>h. 50 \<le> h \<and> h \<le> 180) (hr_history s)"
    and "get_hr normal s = Inr (hr, s')"
  shows "list_all (\<lambda>h. 50 \<le> h \<and> h \<le> 180) (hr_history s') \<and> 0 \<notin> set (hr_history s')"
  using assms(1) get_hr_result [OF assms(2)]
  by (fastforce simp: list_all_iff)

section \<open>Stress index\<close>

lemma clamp_unit: "0 \<le> clamp v 0 1 \<and> clamp v 0 1 \<le> 1"
  by (simp add: clamp_def)

lemma weighted_unit_sum:
  fixes a b c x y z :: real
  assumes "0 \<le> a" "0 \<le> b" "0 \<le> c" "a + b + c \<le> 1"
    and "0 \<le> x" "x \<le> 1" "0 \<le> y" "y \<le> 1" "0 \<le> z" "z \<le> 1"
  shows "0 \<le> a * x + b * y + c * z \<and> a * x + b * y + c * z \<le> 1"
proof
  show "0 \<le> a * x + b * y + c * z" using assms by simp
  have "a * x \<le> a" "b * y \<le> b" "c * z \<le> c"
    using assms by (simp_all add: mult_left_le)
  then show "a * x + b * y + c * z \<le> 1" using assms(4) by linarith
qed

text \<open>
  C8, as stated, fails: with hr 180, eda 10 and hrv 10, all inside the documented ranges,
  and the weights 1, 1, 1 the index is 300.
\<close>

theorem stress_index_range_counterexample:
  "\<not> (0 \<le> compute_stress_index 180 10 10 1 1 1 \<and> compute_stress_index 180 10 10 1 1 1 \<le> 100)"
  by (simp add: compute_stress_index_def clamp_def)

text \<open>
  C8, amended: the index is 100 times the weighted sum of the three clamped
  normalisations, the weights taken as they are; when the weights are not negative and
  sum to at most 1, as the defaults do, it lies between 0 and 100 for every hr, eda
  and hrv.
\<close>

theorem stress_index_weighted_sum:
  "compute_stress_index hr eda hrv w_hr w_eda w_hrv =
     100 * (w_hr * clamp ((hr - 45) / 135) 0 1 + w_eda * clamp (eda / 10) 0 1
            + w_hrv * clamp (1 - (hrv - 10) / 190) 0 1)
   \<and> (0 \<le> w_hr \<and> 0 \<le> w_eda \<and> 0 \<le> w_hrv \<and> w_hr + w_eda + w_hrv \<le> 1 \<longrightarrow>
        0 \<le> compute_stress_index hr eda hrv w_hr w_eda w_hrv
        \<and> compute_stress_index hr eda hrv w_hr w_eda w_hrv \<le> 100)"
proof (intro conjI impI)
  show eq: "compute_stress_index hr eda hrv w_hr w_eda w_hrv =
     100 * (w_hr * clamp ((hr - 45) / 135) 0 1 + w_eda * clamp (eda / 10) 0 1
            + w_hrv * clamp (1 - (hrv - 10) / 190) 0 1)"
    by (simp add: compute_stress_index_def Let_def)
  assume w: "0 \<le> w_hr \<and> 0 \<le> w_eda \<and> 0 \<le> w_hrv \<and> w_hr + w_eda + w_hrv \<le> 1"
  have b: "0 \<le> w_hr * clamp ((hr - 45) / 135) 0 1 + w_eda * clamp (eda / 10) 0 1
            + w_hrv * clamp (1 - (hrv - 10) / 190) 0 1 \<and>
        w_hr * clamp ((hr - 45) / 135) 0 1 + w_eda * clamp (eda / 10) 0 1
            + w_hrv * clamp (1 - (hrv - 10) / 190) 0 1 \<le> 1"
    using w clamp_unit by (intro weighted_unit_sum) auto
  show "0 \<le> compute_stress_index hr eda hrv w_hr w_eda w_hrv"
    unfolding eq using b by simp
  show "compute_stress_index hr eda hrv w_hr w_eda w_hrv \<le> 100"
    unfolding eq using b by simp
qed

theorem stress_index_weighted_sum_witness:
  "(0::real) \<le> 0.33 \<and> (0::real) \<le> 0.34 \<and> (0.33::real) + 0.33 + 0.34 \<le> 1
   \<and> compute_stress_index 75 2 50 0.33 0.33 0.34 = 11621 / 285
   \<and> 0 \<le> compute_stress_index 75 2 50 0.33 0.33 0.34
   \<and> compute_stress_index 75 2 50 0.33 0.33 0.34 \<le> 100"
  using stress_index_weighted_sum [of 75 2 50 "0.33" "0.33" "0.34"]
  by (simp add: clamp_def)

section \<open>Heart-rate variability\<close>

text \<open>The comprehension by index computes the successive differences.\<close>

lemma indexed_differences:
  "map (\<lambda>i. \<bar>xs ! (i + 1) - xs ! i\<bar>) [0 ..< length xs - 1] = successive_differences xs"
proof (induction xs rule: successive_differences.induct)
  case (1 a b xs)
  have "[0 ..< length (a # b # xs) - 1] = 0 # map Suc [0 ..< length (b # xs) - 1]"
    by (simp add: upt_conv_Cons map_Suc_upt del: upt_Suc)
  then show ?case using 1 by (simp add: comp_def del: upt_Suc)
qed simp_all

lemma length_successive_differences:
  "length (successive_differences xs) = length xs - 1"
  by (induction xs rule: successive_differences.induct) simp_all

lemma variance_nonneg:
  "0 \<le> sum_list (map (\<lambda>x. (x - m) ^ 2) xs) / real (length xs)"
  by (intro divide_nonneg_nonneg sum_list_nonneg) auto

text \<open>
  C6: with fewer than two entries in the history \<open>get_hrv\<close> returns 50; with two or
  more (none of them zero, as for every history that \<open>get_hr\<close> fills) it returns the
  population standard deviation of the absolute differences between consecutive RR
  intervals, clamped to [10, 200]; and two module states with the same history give the
  same result.
\<close>

theorem get_hrv_sdnn:
  "(length (hr_history s) < 2 \<longrightarrow> get_hrv s = Inr 50)
   \<and> (2 \<le> length (hr_history s) \<and> 0 \<notin> set (hr_history s) \<longrightarrow>
        get_hrv s = Inr (clamp (sdnn_spec (hr_history s)) 10 200))
   \<and> (hr_history s = hr_history s' \<longrightarrow> get_hrv s = get_hrv s')"
proof (intro conjI impI)
  show "get_hrv s = Inr 50" if "length (hr_history s) < 2"
    using that by (simp add: get_hrv_def)
  show "get_hrv s = get_hrv s'" if "hr_history s = hr_history s'"
    using that by (simp add: get_hrv_def)
  show "get_hrv s = Inr (clamp (sdnn_spec (hr_history s)) 10 200)"
    if h: "2 \<le> length (hr_history s) \<and> 0 \<notin> set (hr_history s)"
  proof -
    define rr where "rr = map (\<lambda>hr. 60000 / hr) (hr_history s)"
    define nn where "nn = successive_differences rr"
    have len: "length nn \<noteq> 0"
      using h by (simp add: nn_def rr_def length_successive_differences)
    have idx: "map (\<lambda>i. \<bar>rr ! (i + 1) - rr ! i\<bar>) [0 ..< length rr - 1] = nn"
      unfolding nn_def by (rule indexed_differences)
    have code: "get_hrv s =
        Inr (clamp ((sum_list (map (\<lambda>x. (x - sum_list nn / real (length nn)) ^ 2) nn)
                       / real (length nn)) powr (1 / 2)) 10 200)"
      using h len idx unfolding get_hrv_def Let_def rr_def [symmetric]
      by (simp del: upt_Suc)
    have rr_fun: "rr_interval = (\<lambda>hr. 60000 / hr)"
      by (rule ext) (simp add: rr_interval_def)
    have spec: "sdnn_spec (hr_history s) =
        sqrt (sum_list (map (\<lambda>x. (x - sum_list nn / real (length nn)) ^ 2) nn)
                / real (length nn))"
      by (simp add: sdnn_spec_def population_sd_def mean_def nn_def rr_def rr_fun)
    show ?thesis
      unfolding code spec using variance_nonneg [of "sum_list nn / real (length nn)" nn]
      by (simp add: powr_half_sqrt)
  qed
qed

theorem get_hrv_sdnn_witness:
  "length (hr_history (initial_sensors\<lparr>hr_history := [60]\<rparr>)) < 2
   \<and> get_hrv (initial_sensors\<lparr>hr_history := [60]\<rparr>) = Inr 50
   \<and> 2 \<le> length (hr_history (initial_sensors\<lparr>hr_history := [60, 60]\<rparr>))
   \<and> 0 \<notin> set (hr_history (initial_sensors\<lparr>hr_history := [60, 60]\<rparr>))
   \<and> get_hrv (initial_sensors\<lparr>hr_history := [60, 60]\<rparr>) = Inr 10
   \<and> get_hrv (initial_sensors\<lparr>hr_history := [60, 60], current_time := 3\<rparr>) = Inr 10"
  using get_hrv_sdnn [of "initial_sensors\<lparr>hr_history := [60]\<rparr>"
                         "initial_sensors\<lparr>hr_history := [60]\<rparr>"]
        get_hrv_sdnn [of "initial_sensors\<lparr>hr_history := [60, 60]\<rparr>"
                         "initial_sensors\<lparr>hr_history := [60, 60], current_time := 3\<rparr>"]
  by (auto simp: sdnn_spec_def population_sd_def mean_def rr_interval_def clamp_def)

section \<open>Baseline protocol\<close>

text \<open>
  C5: with fewer than 10 collected samples \<open>compute_baseline_values\<close> returns false and
  the state is unchanged; with 10 or more it returns true, the three baseline values
  are the means of the samples' hr, eda and hrv, and a second call returns true and
  leaves the state of the first call as it is.
\<close>

theorem compute_baseline_values_result:
  "(length (baseline_samples s) < 10 \<longrightarrow> compute_baseline_values s = (False, s))
   \<and> (10 \<le> length (baseline_samples s) \<longrightarrow>
        compute_baseline_values s =
          (True, s\<lparr>baseline_hr := mean (map b_hr (baseline_samples s)),
                   baseline_eda := mean (map b_eda (baseline_samples s)),
                   baseline_hrv := mean (map b_hrv (baseline_samples s)),
                   baseline_computed := True\<rparr>)
        \<and> compute_baseline_values (snd (compute_baseline_values s)) =
            (True, snd (compute_baseline_values s)))"
  by (simp add: compute_baseline_values_def mean_def Let_def)

theorem compute_baseline_values_result_witness:
  "length (baseline_samples (initial_sensors\<lparr>baseline_samples := take 9 ten_samples\<rparr>)) < 10
   \<and> compute_baseline_values (initial_sensors\<lparr>baseline_samples := take 9 ten_samples\<rparr>)
       = (False, initial_sensors\<lparr>baseline_samples := take 9 ten_samples\<rparr>)
   \<and> 10 \<le> length (baseline_samples (initial_sensors\<lparr>baseline_samples := ten_samples\<rparr>))
   \<and> compute_baseline_values (initial_sensors\<lparr>baseline_samples := ten_samples\<rparr>)
       = (True, initial_sensors\<lparr>baseline_samples := ten_samples, baseline_computed := True\<rparr>)
   \<and> compute_baseline_values
         (snd (compute_baseline_values (initial_sensors\<lparr>baseline_samples := ten_samples\<rparr>)))
       = (True, initial_sensors\<lparr>baseline_samples := ten_samples, baseline_computed := True\<rparr>)"
  using compute_baseline_values_result [of "initial_sensors\<lparr>baseline_samples := take 9 ten_samples\<rparr>"]
        compute_baseline_values_result [of "initial_sensors\<lparr>baseline_samples := ten_samples\<rparr>"]
  by (auto simp: ten_samples_def mean_def initial_sensors_def sum_list_replicate)

text \<open>\<open>get_hr\<close> assigns the history only.\<close>

lemma run_op_get_hr:
  "baseline_computed (run_op (Op_get_hr normal) s) = baseline_computed s
   \<and> baseline_samples (run_op (Op_get_hr normal) s) = baseline_samples s
   \<and> current_time (run_op (Op_get_hr normal) s) = current_time s
   \<and> scenario (run_op (Op_get_hr normal) s) = scenario s"
  by (auto simp: get_hr_def Let_def split: prod.splits sum.splits)

text \<open>
  C4: an operation other than the reset keeps \<open>computed\<close> true; \<open>computed\<close> turns
  from false to true only in \<open>compute_baseline_values\<close> and only with at least 10
  collected samples; the reset clears the samples, sets \<open>computed\<close> to false, the
  baseline values to 75, 2 and 50 and the clock to 0.
\<close>

theorem baseline_computed_transitions:
  "(op \<noteq> Op_reset_baseline_protocol \<and> baseline_computed s \<longrightarrow> baseline_computed (run_op op s))
   \<and> (\<not> baseline_computed s \<and> baseline_computed (run_op op s) \<longrightarrow>
        op = Op_compute_baseline_values \<and> 10 \<le> length (baseline_samples s))
   \<and> run_op Op_reset_baseline_protocol s =
        s\<lparr>baseline_computed := False, baseline_samples := [], current_time := 0,
          baseline_hr := 75, baseline_eda := 2, baseline_hrv := 50\<rparr>"
proof (cases op)
  case (Op_get_hr normal)
  then show ?thesis
    using run_op_get_hr [of normal s] by (simp add: reset_baseline_protocol_def)
qed (auto simp: advance_time_def reset_time_def set_scenario_def
       collect_baseline_sample_def compute_baseline_values_def reset_baseline_protocol_def
       Let_def split: if_splits)

theorem baseline_computed_transitions_witness:
  "Op_compute_baseline_values \<noteq> Op_reset_baseline_protocol
   \<and> baseline_computed (initial_sensors\<lparr>baseline_samples := ten_samples, baseline_computed := True\<rparr>)
   \<and> baseline_computed (run_op Op_compute_baseline_values
        (initial_sensors\<lparr>baseline_samples := ten_samples, baseline_computed := True\<rparr>))
   \<and> \<not> baseline_computed (initial_sensors\<lparr>baseline_samples := ten_samples\<rparr>)
   \<and> baseline_computed (run_op Op_compute_baseline_values
        (initial_sensors\<lparr>baseline_samples := ten_samples\<rparr>))
   \<and> 10 \<le> length (baseline_samples (initial_sensors\<lparr>baseline_samples := ten_samples\<rparr>))
   \<and> run_op Op_reset_baseline_protocol
        (initial_sensors\<lparr>baseline_samples := ten_samples, baseline_computed := True,
           current_time := 200\<rparr>) = initial_sensors"
  using baseline_computed_transitions [of Op_compute_baseline_values
          "initial_sensors\<lparr>baseline_samples := ten_samples, baseline_computed := True\<rparr>"]
        baseline_computed_transitions [of Op_compute_baseline_values
          "initial_sensors\<lparr>baseline_samples := ten_samples\<rparr>"]
        baseline_computed_transitions [of Op_reset_baseline_protocol
          "initial_sensors\<lparr>baseline_samples := ten_samples, baseline_computed := True,
             current_time := 200\<rparr>"]
  by (simp add: ten_samples_def initial_sensors_def compute_baseline_values_def sum_list_replicate)

text \<open>
  Along any sequence of operations from a state where it holds, a computed baseline has
  at least 10 samples behind it.
\<close>

lemma run_op_keeps_ten_samples:
  "(baseline_computed s \<longrightarrow> 10 \<le> length (baseline_samples s)) \<Longrightarrow>
   baseline_computed (run_op op s) \<longrightarrow> 10 \<le> length (baseline_samples (run_op op s))"
proof (cases op)
  case (Op_get_hr normal)
  assume "baseline_computed s \<longrightarrow> 10 \<le> length (baseline_samples s)"
  then show ?thesis
    unfolding Op_get_hr using run_op_get_hr [of normal s] by metis
qed (auto simp: advance_time_def reset_time_def set_scenario_def
       collect_baseline_sample_def compute_baseline_values_def reset_baseline_protocol_def
       Let_def split: if_splits)

lemma computed_needs_ten_samples:
  "(baseline_computed s \<longrightarrow> 10 \<le> length (baseline_samples s)) \<Longrightarrow>
   baseline_computed (run_ops ops s) \<Longrightarrow> 10 \<le> length (baseline_samples (run_ops ops s))"
proof (induction ops arbitrary: s)
  case Nil
  then show ?case by simp
next
  case (Cons op ops)
  then show ?case using run_op_keeps_ten_samples [of s op] by simp
qed

text \<open>Along any sequence of operations the history keeps holding heart rates.\<close>

lemma run_ops_history:
  "list_all (\<lambda>h. 50 \<le> h \<and> h \<le> 180) (hr_history s) \<Longrightarrow>
   list_all (\<lambda>h. 50 \<le> h \<and> h \<le> 180) (hr_history (run_ops ops s))"
proof (induction ops arbitrary: s)
  case Nil
  then show ?case by simp
next
  case (Cons op ops)
  have "list_all (\<lambda>h. 50 \<le> h \<and> h \<le> 180) (hr_history (run_op op s))"
  proof (cases op)
    case (Op_get_hr normal)
    show ?thesis
      using Cons.prems get_hr_history [OF Cons.prems, of normal]
      by (auto simp: Op_get_hr split: sum.splits)
  qed (use Cons.prems in \<open>auto simp: advance_time_def reset_time_def set_scenario_def
       collect_baseline_sample_def compute_baseline_values_def reset_baseline_protocol_def
       Let_def split: if_splits\<close>)
  then show ?case using Cons.IH by simp
qed

section \<open>One tick\<close>

text \<open>
  Where a baseline sample is due, the tick collects it and then raises TypeError from
  \<open>len\<close> of an \<open>int\<close>: the clock and the session log stay as they were.
\<close>

lemma tick_in_baseline_window:
  assumes "rd (connector st) (sens st) = (Inr v, c1, s1)"
    and "should_collect_baseline_sample s1"
  shows "generate_biofeedback_sample rd now st =
           (Inl TypeError,
            st\<lparr>connector := c1,
               sens := collect_baseline_sample (r_hr v) (r_eda v) (r_hrv v) s1\<rparr>)"
  using assms
  by (simp add: generate_biofeedback_sample_def baseline_block_def len_of_int_def Let_def)

text \<open>
  Where no baseline sample is due and the read succeeds, the tick reads once, advances
  the clock by the stream interval, and appends and returns one sample.
\<close>

lemma tick_outside_baseline_window:
  assumes "rd (connector st) (sens st) = (Inr v, c1, s1)"
    and "\<not> should_collect_baseline_sample s1"
  shows "generate_biofeedback_sample rd now st =
           (Inr \<lparr>timestamp = now, s_hr = py_round (r_hr v) 1, s_eda = py_round (r_eda v) 3,
                 s_hrv = py_round (r_hrv v) 1,
                 s_stress = py_round (compute_stress_index_default (r_hr v) (r_eda v) (r_hrv v)) 1,
                 s_scenario = scenario s1\<rparr>,
            st\<lparr>connector := c1, sens := advance_time (stream_interval st) s1,
               session_data := session_data st @
                 [\<lparr>timestamp = now, s_hr = py_round (r_hr v) 1, s_eda = py_round (r_eda v) 3,
                   s_hrv = py_round (r_hrv v) 1,
                   s_stress = py_round (compute_stress_index_default (r_hr v) (r_eda v) (r_hrv v)) 1,
                   s_scenario = scenario s1\<rparr>]\<rparr>)"
  using assms
  by (simp add: generate_biofeedback_sample_def baseline_block_def Let_def
        get_current_scenario_def)

text \<open>A tick assigns neither the configuration nor the registry.\<close>

lemma tick_keeps_config:
  "stream_frequency (snd (generate_biofeedback_sample rd now st)) = stream_frequency st
   \<and> stream_interval (snd (generate_biofeedback_sample rd now st)) = stream_interval st
   \<and> subscribers (snd (generate_biofeedback_sample rd now st)) = subscribers st"
  by (simp add: generate_biofeedback_sample_def Let_def split: prod.splits sum.splits)

text \<open>
  The baseline block never reaches \<open>compute_baseline_values\<close>, and the simulator's read
  assigns the history only: a tick with the simulator leaves \<open>computed\<close> as it was.
\<close>

lemma baseline_block_keeps_computed:
  "baseline_block v s = (r, s') \<Longrightarrow> baseline_computed s' = baseline_computed s"
  by (auto simp: baseline_block_def len_of_int_def collect_baseline_sample_def Let_def
      split: if_splits)

lemma sim_read_frame:
  "sim_read normal_hr normal_eda c s = (r, c', s1) \<Longrightarrow>
   c' = c \<and> s1 = s\<lparr>hr_history := hr_history s1\<rparr>"
  by (auto simp: sim_read_def split: if_splits sum.splits prod.splits dest: get_hr_result)

lemma sim_tick_keeps_computed:
  "baseline_computed (sens (snd (generate_biofeedback_sample (sim_read normal_hr normal_eda) now st)))
     = baseline_computed (sens st)"
proof -
  obtain r c' s1 where rd: "sim_read normal_hr normal_eda (connector st) (sens st) = (r, c', s1)"
    by (cases "sim_read normal_hr normal_eda (connector st) (sens st)") auto
  have s1: "s1 = (sens st)\<lparr>hr_history := hr_history s1\<rparr>"
    using sim_read_frame [OF rd] by simp
  have bc: "baseline_computed s1 = baseline_computed (sens st)"
    by (subst s1) simp
  show ?thesis
    using bc
    by (auto simp: generate_biofeedback_sample_def rd Let_def advance_time_def
        split: sum.splits prod.splits dest!: baseline_block_keeps_computed)
qed

text \<open>
  The simulator's read returns from virtual time 0 on, when it is connected and the
  history holds heart rates; it assigns the history only.
\<close>

lemma get_hrv_returns: "0 \<notin> set (hr_history s) \<Longrightarrow> \<exists>hrv. get_hrv s = Inr hrv"
  by (simp add: get_hrv_def Let_def)

lemma sim_read_returns:
  assumes "0 \<le> current_time s" and "list_all (\<lambda>h. 50 \<le> h \<and> h \<le> 180) (hr_history s)"
  shows "\<exists>v s1. sim_read normal_hr normal_eda True s = (Inr v, True, s1)
           \<and> s1 = s\<lparr>hr_history := hr_history s1\<rparr>
           \<and> list_all (\<lambda>h. 50 \<le> h \<and> h \<le> 180) (hr_history s1)"
proof -
  obtain hr s1 where g: "get_hr normal_hr s = Inr (hr, s1)"
    using get_hr_returns [OF assms(1), of normal_hr] by blast
  have s1: "s1 = s\<lparr>hr_history := hr_history s1\<rparr>"
    using get_hr_result [OF g] by simp
  have h: "list_all (\<lambda>h. 50 \<le> h \<and> h \<le> 180) (hr_history s1)" "0 \<notin> set (hr_history s1)"
    using get_hr_history [OF assms(2) g] by simp_all
  have "current_time s1 = current_time s"
    by (subst s1) simp
  then obtain eda where e: "get_eda normal_eda s1 = Inr eda"
    using get_eda_returns [of s1 normal_eda] assms(1) by auto
  obtain hrv where v: "get_hrv s1 = Inr hrv"
    using get_hrv_returns [OF h(2)] by blast
  have "sim_read normal_hr normal_eda True s
          = (Inr \<lparr>r_hr = hr, r_eda = eda, r_hrv = hrv\<rparr>, True, s1)"
    by (simp add: sim_read_def g e v)
  then show ?thesis using s1 h(1) by blast
qed

text \<open>
  With the simulator, a tick before the baseline window does what a tick is to do, once:
  the clock advances by the stream interval and one sample is appended and returned.
\<close>

lemma sim_tick_before_window:
  assumes "connector st" and "0 \<le> current_time (sens st)"
    and "list_all (\<lambda>h. 50 \<le> h \<and> h \<le> 180) (hr_history (sens st))"
    and "current_time (sens st) < 180"
  shows "\<exists>smp st'. generate_biofeedback_sample (sim_read normal_hr normal_eda) now st
                     = (Inr smp, st')
           \<and> connector st'
           \<and> current_time (sens st') = current_time (sens st) + stream_interval st
           \<and> list_all (\<lambda>h. 50 \<le> h \<and> h \<le> 180) (hr_history (sens st'))
           \<and> baseline_computed (sens st') = baseline_computed (sens st)
           \<and> baseline_samples (sens st') = baseline_samples (sens st)
           \<and> session_data st' = session_data st @ [smp]
           \<and> stream_interval st' = stream_interval st"
proof -
  obtain v s1 where rd: "sim_read normal_hr normal_eda (connector st) (sens st) = (Inr v, True, s1)"
    and s1: "s1 = (sens st)\<lparr>hr_history := hr_history s1\<rparr>"
    and h: "list_all (\<lambda>h. 50 \<le> h \<and> h \<le> 180) (hr_history s1)"
    using sim_read_returns [OF assms(2,3), of normal_hr normal_eda] assms(1) by auto
  have t: "current_time s1 = current_time (sens st)"
    and bc: "baseline_computed s1 = baseline_computed (sens st)"
    and bs: "baseline_samples s1 = baseline_samples (sens st)"
    by (subst s1, simp)+
  have nc: "\<not> should_collect_baseline_sample s1"
    using assms(4) t
    by (simp add: should_collect_baseline_sample_def is_in_baseline_window_def
        resting_period_seconds_def Let_def)
  show ?thesis
    unfolding tick_outside_baseline_window [where rd = "sim_read normal_hr normal_eda"
        and st = st, OF rd nc]
    using h t bc bs by (simp add: advance_time_def)
qed

text \<open>
  From a fresh server at 1 Hz the first 180 ticks succeed and bring the clock to 180
  with the baseline not computed.
\<close>

lemma ticks_before_window:
  assumes "connector st" and "0 \<le> current_time (sens st)"
    and "list_all (\<lambda>h. 50 \<le> h \<and> h \<le> 180) (hr_history (sens st))"
    and "stream_interval st = 1" and "current_time (sens st) + real n \<le> 180"
  shows "connector (ticks n (sim_read normal_hr normal_eda) now st)
         \<and> current_time (sens (ticks n (sim_read normal_hr normal_eda) now st))
             = current_time (sens st) + real n
         \<and> list_all (\<lambda>h. 50 \<le> h \<and> h \<le> 180)
             (hr_history (sens (ticks n (sim_read normal_hr normal_eda) now st)))
         \<and> baseline_computed (sens (ticks n (sim_read normal_hr normal_eda) now st))
             = baseline_computed (sens st)
         \<and> baseline_samples (sens (ticks n (sim_read normal_hr normal_eda) now st))
             = baseline_samples (sens st)
         \<and> length (session_data (ticks n (sim_read normal_hr normal_eda) now st))
             = length (session_data st) + n
         \<and> stream_interval (ticks n (sim_read normal_hr normal_eda) now st) = 1"
  using assms
proof (induction n arbitrary: st)
  case 0
  then show ?case by simp
next
  case (Suc n)
  have lt: "current_time (sens st) < 180" using Suc.prems(5) by simp
  obtain smp st' where
    g: "generate_biofeedback_sample (sim_read normal_hr normal_eda) now st = (Inr smp, st')"
    and st': "connector st'"
      "current_time (sens st') = current_time (sens st) + stream_interval st"
      "list_all (\<lambda>h. 50 \<le> h \<and> h \<le> 180) (hr_history (sens st'))"
      "baseline_computed (sens st') = baseline_computed (sens st)"
      "baseline_samples (sens st') = baseline_samples (sens st)"
      "session_data st' = session_data st @ [smp]"
      "stream_interval st' = stream_interval st"
    using sim_tick_before_window [OF Suc.prems(1,2,3) lt, of normal_hr normal_eda now]
    by blast
  have "0 \<le> current_time (sens st')" "stream_interval st' = 1"
    "current_time (sens st') + real n \<le> 180"
    using st' Suc.prems by simp_all
  from Suc.IH [OF st'(1) this(1) st'(3) this(2,3)]
  show ?case using g st' Suc.prems(4) by simp
qed

text \<open>
  C1 fails on the code at virtual time 180 with the baseline not computed. On a fresh
  server at 1 Hz with the simulator, after 180 ticks the next tick collects the baseline
  sample and raises TypeError: the clock stays at 180 and the session log keeps its 180
  samples.
\<close>

theorem tick_at_180_raises:
  "fst (generate_biofeedback_sample (sim_read zero_noise zero_noise) []
          (ticks 180 (sim_read zero_noise zero_noise) [] (sim_server 1 0)))
     = Inl TypeError
   \<and> current_time (sens (snd (generate_biofeedback_sample (sim_read zero_noise zero_noise) []
        (ticks 180 (sim_read zero_noise zero_noise) [] (sim_server 1 0))))) = 180
   \<and> length (session_data (snd (generate_biofeedback_sample (sim_read zero_noise zero_noise) []
        (ticks 180 (sim_read zero_noise zero_noise) [] (sim_server 1 0))))) = 180
   \<and> length (baseline_samples (sens (snd (generate_biofeedback_sample
        (sim_read zero_noise zero_noise) []
        (ticks 180 (sim_read zero_noise zero_noise) [] (sim_server 1 0)))))) = 1"
proof -
  define st :: "(nat, bool) server"
    where "st = ticks 180 (sim_read zero_noise zero_noise) [] (sim_server 1 0)"
  have init: "connector (sim_server 1 0 :: (nat, bool) server)"
    "0 \<le> current_time (sens (sim_server 1 0 :: (nat, bool) server))"
    "list_all (\<lambda>h. 50 \<le> h \<and> h \<le> 180) (hr_history (sens (sim_server 1 0 :: (nat, bool) server)))"
    "stream_interval (sim_server 1 0 :: (nat, bool) server) = 1"
    "current_time (sens (sim_server 1 0 :: (nat, bool) server)) + real 180 \<le> 180"
    by (simp_all add: sim_server_def server_fields_def initial_sensors_def)
  have st: "connector st" "current_time (sens st) = 180"
    "list_all (\<lambda>h. 50 \<le> h \<and> h \<le> 180) (hr_history (sens st))"
    "\<not> baseline_computed (sens st)" "length (session_data st) = 180"
    "baseline_samples (sens st) = []"
    using ticks_before_window [OF init, of zero_noise zero_noise "[]"]
    unfolding st_def [symmetric]
    by (simp_all add: sim_server_def server_fields_def initial_sensors_def)
  obtain v s1 where rd: "sim_read zero_noise zero_noise (connector st) (sens st) = (Inr v, True, s1)"
    and s1: "s1 = (sens st)\<lparr>hr_history := hr_history s1\<rparr>"
    using sim_read_returns [of "sens st" zero_noise zero_noise] st by auto
  have t: "current_time s1 = 180" and bc: "\<not> baseline_computed s1"
    and bs: "baseline_samples s1 = []"
    using st(2,4,6) by (subst s1, simp)+
  have sc: "should_collect_baseline_sample s1"
    using t bc
    by (simp add: should_collect_baseline_sample_def is_in_baseline_window_def
        resting_period_seconds_def baseline_window_seconds_def)
  show ?thesis
    unfolding st_def [symmetric]
      tick_in_baseline_window [where rd = "sim_read zero_noise zero_noise" and st = st, OF rd sc]
    using t bs st(5) by (simp add: collect_baseline_sample_def)
qed

section \<open>The command dispatcher\<close>

lemma lower_char_adds_32:
  "65 \<le> (of_char c :: nat) \<Longrightarrow> (of_char c :: nat) \<le> 90 \<Longrightarrow>
   (of_char (lower_char c) :: nat) = of_char c + 32"
  by (cases c) (auto simp: lower_char_def of_bool_def split: if_splits)

text \<open>
  Where \<open>hz\<close> converts to a finite float, the range check does what it is to do: below
  0.1 or above 50 the answer is the error with the rejected value and the current
  frequency, and the server is unchanged; in the range the frequency becomes \<open>hz\<close>, the
  interval \<open>1 / hz\<close>, and the answer is frequency_changed.
\<close>

lemma set_frequency_finite_hz:
  assumes "request ''command'' = Some (JStr c)" and "lower c = ''set_frequency''"
    and "request ''hz'' = Some v" and "py_float (env_float_of_str env) v = Inr (Finite hz)"
  shows "(hz < 0.1 \<or> hz > 50 \<longrightarrow>
            handle_client_message env st ws (Some (JObj request)) =
              (Error_invalid_frequency (Finite hz) (stream_frequency st), Server_is st))
         \<and> (0.1 \<le> hz \<and> hz \<le> 50 \<longrightarrow>
            handle_client_message env st ws (Some (JObj request)) =
              (Frequency_changed (stream_frequency st) (Finite hz) (Finite (1 / hz)),
               Server_is (st\<lparr>stream_frequency := hz, stream_interval := 1 / hz\<rparr>)))"
  using assms
  by (auto simp: handle_client_message_def set_frequency_command_def Let_def)

lemma set_frequency_finite_hz_examples:
  "handle_client_message sim_env (sim_server 10 0) 1
      (Some (JObj [''command'' \<mapsto> JStr ''set_frequency'', ''hz'' \<mapsto> JInt 100]))
     = (Error_invalid_frequency (Finite 100) 10, Server_is (sim_server 10 0))
   \<and> handle_client_message sim_env (sim_server 10 0) 1
      (Some (JObj [''command'' \<mapsto> JStr ''Set_Frequency'', ''hz'' \<mapsto> JFloat (Finite 1)]))
     = (Frequency_changed 10 (Finite 1) (Finite 1), Server_is (sim_server 1 0))
   \<and> handle_client_message sim_env (sim_server 10 0) 1
      (Some (JObj [''command'' \<mapsto> JStr ''set_frequency'', ''hz'' \<mapsto> JFloat PosInf]))
     = (Error_invalid_frequency PosInf 10, Server_is (sim_server 10 0))"
  by (simp add: handle_client_message_def set_frequency_command_def lower_def lower_char_def
        sim_server_def server_fields_def float_overflow_bound_def)

text \<open>
  Where \<open>hz\<close> converts to NaN, as the JSON literal \<open>NaN\<close> does, the guard lets it
  pass and NaN is assigned; where \<open>hz\<close> is an integer that \<open>float\<close> does not convert,
  the answer is the general server error.
\<close>

lemma set_frequency_nan_hz:
  assumes "request ''command'' = Some (JStr c)" and "lower c = ''set_frequency''"
    and "request ''hz'' = Some v" and "py_float (env_float_of_str env) v = Inr NaN"
  shows "handle_client_message env st ws (Some (JObj request)) =
           (Frequency_changed (stream_frequency st) NaN NaN, Server_with_nan_config st)"
  using assms
  by (simp add: handle_client_message_def set_frequency_command_def Let_def)

lemma set_frequency_overflow_hz:
  assumes "request ''command'' = Some (JStr c)" and "lower c = ''set_frequency''"
    and "request ''hz'' = Some (JInt n)" and "\<bar>n\<bar> \<ge> float_overflow_bound"
  shows "handle_client_message env st ws (Some (JObj request)) =
           (Error_server OverflowError, Server_is st)"
  using assms
  by (simp add: handle_client_message_def set_frequency_command_def Let_def)

text \<open>
  C3 fails on the code at two values of \<open>hz\<close> that are outside the range. With the
  JSON literal \<open>NaN\<close> neither comparison of the guard holds: NaN is assigned to the
  frequency and to the interval, and the answer is frequency_changed. With the integer
  \<open>10 ^ 309\<close> the conversion raises OverflowError, which the handler of the branch does
  not catch: the server is unchanged, and the answer is the general server error, which
  names neither the rejected value nor the current frequency.
\<close>

theorem set_frequency_nan_and_overflow:
  "handle_client_message sim_env (sim_server 10 0) 1
      (Some (JObj [''command'' \<mapsto> JStr ''set_frequency'', ''hz'' \<mapsto> JFloat NaN]))
     = (Frequency_changed 10 NaN NaN, Server_with_nan_config (sim_server 10 0))
   \<and> response_type (Frequency_changed 10 NaN NaN) = ''frequency_changed''
   \<and> handle_client_message sim_env (sim_server 10 0) 1
      (Some (JObj [''command'' \<mapsto> JStr ''set_frequency'', ''hz'' \<mapsto> JInt (10 ^ 309)]))
     = (Error_server OverflowError, Server_is (sim_server 10 0))"
  by (simp add: handle_client_message_def set_frequency_command_def lower_def lower_char_def
        sim_server_def server_fields_def float_overflow_bound_def)

text \<open>
  C10, as stated, fails: the constructor takes any frequency, and on a server built at
  100 Hz a \<open>set_frequency\<close> request without \<open>hz\<close> gets the out-of-range error.
\<close>

theorem set_frequency_missing_hz_counterexample:
  "handle_client_message sim_env (sim_server 100 0) 1
      (Some (JObj [''command'' \<mapsto> JStr ''set_frequency'']))
     = (Error_invalid_frequency (Finite 100) 100, Server_is (sim_server 100 0))
   \<and> response_type (Error_invalid_frequency (Finite 100) 100) = ''error''"
  by (simp add: handle_client_message_def set_frequency_command_def lower_def lower_char_def
        sim_server_def server_fields_def)

text \<open>
  C10, amended: on a server whose frequency lies in [0.1, 50] and whose interval is its
  inverse, a \<open>set_frequency\<close> request without \<open>hz\<close> takes the current frequency for
  \<open>hz\<close>: the response is frequency_changed with the old and the new frequency equal,
  and the server, frequency and interval included, is unchanged.
\<close>

theorem set_frequency_missing_hz:
  assumes "request ''command'' = Some (JStr c)" and "lower c = ''set_frequency''"
    and "request ''hz'' = None" and "server_config_ok st"
  shows "handle_client_message env st ws (Some (JObj request)) =
           (Frequency_changed (stream_frequency st) (Finite (stream_frequency st))
              (Finite (stream_interval st)),
            Server_is st)"
  using assms
  by (auto simp: handle_client_message_def set_frequency_command_def Let_def server_config_ok_def)

theorem set_frequency_missing_hz_witness:
  "server_config_ok (sim_server 10 0)
   \<and> handle_client_message sim_env (sim_server 10 0) 1
        (Some (JObj [''command'' \<mapsto> JStr ''set_frequency'']))
       = (Frequency_changed 10 (Finite 10) (Finite (1 / 10)), Server_is (sim_server 10 0))
   \<and> response_type (Frequency_changed 10 (Finite 10) (Finite (1 / 10))) = ''frequency_changed''"
  using set_frequency_missing_hz [of "[''command'' \<mapsto> JStr ''set_frequency'']"
          "''set_frequency''" "sim_server 10 0" sim_env 1]
  by (simp add: lower_def lower_char_def sim_server_def server_fields_def server_config_ok_def)

text \<open>
  The constructor establishes that configuration when its frequency is in the range, and
  every command that leaves finite floats in the configuration keeps it.
\<close>

lemma new_server_config_ok:
  "0.1 \<le> f \<Longrightarrow> f \<le> 50 \<Longrightarrow>
   new_server h p f c s = Inr (server_fields h p f c s) \<and> server_config_ok (server_fields h p f c s)"
  by (simp add: new_server_def server_fields_def server_config_ok_def)

lemma set_frequency_command_keeps_config:
  "server_config_ok st \<Longrightarrow> set_frequency_command env request st = (r, Server_is st') \<Longrightarrow>
   server_config_ok st'"
  by (auto simp: set_frequency_command_def server_config_ok_def Let_def
      split: sum.splits pyfloat.splits if_splits)

lemma set_scenario_command_keeps_config:
  "server_config_ok st \<Longrightarrow> server_config_ok (snd (set_scenario_command request st))"
  by (auto simp: set_scenario_command_def server_config_ok_def
      split: json.splits sum.splits option.splits)

lemma tick_keeps_config_ok:
  "server_config_ok st \<Longrightarrow> server_config_ok (snd (generate_biofeedback_sample rd now st))"
  using tick_keeps_config [of rd now st] by (simp add: server_config_ok_def)

lemma handle_client_message_keeps_config:
  assumes "server_config_ok st"
    and "handle_client_message env st ws msg = (r, Server_is st')"
  shows "server_config_ok st'"
proof (cases msg)
  case None
  then show ?thesis using assms by (simp add: handle_client_message_def)
next
  case (Some j)
  show ?thesis
  proof (cases j)
    case (JObj request)
    show ?thesis
    proof (cases "case request ''command'' of None \<Rightarrow> JStr [] | Some v \<Rightarrow> v")
      case (JStr c)
      have once: "server_config_ok
          (snd (generate_biofeedback_sample (env_read env) (env_now_iso env) st))"
        using tick_keeps_config_ok [OF assms(1)] .
      have scen: "server_config_ok (snd (set_scenario_command request st))"
        using set_scenario_command_keeps_config [OF assms(1)] .
      have cfg: "server_config_ok (st\<lparr>subscribers := S, client_counter := n\<rparr>)"
        "server_config_ok (st\<lparr>subscribers := S\<rparr>)" for S n
        using assms(1) by (simp_all add: server_config_ok_def)
      show ?thesis
        using assms once scen cfg set_frequency_command_keeps_config [OF assms(1), of env request r st']
        unfolding handle_client_message_def Some JObj
        by (auto simp: JStr Let_def status_command_def apsnd_def map_prod_def
            split: if_splits prod.splits sum.splits)
    qed (use assms in \<open>auto simp: handle_client_message_def Some JObj\<close>)
  qed (use assms Some in \<open>auto simp: handle_client_message_def\<close>)
qed

section \<open>The broadcast loop\<close>



lemma send_loop_result:
  "send_loop send m ws d evs =
     (d \<union> set (filter (\<lambda>w. send w m \<noteq> Sent) ws), evs @ map (\<lambda>w. Send_attempt w m) ws)"
  by (induction ws arbitrary: d evs) (auto split: send_result.splits)

lemma discard_loop_result:
  "discard_loop ws subs evs = (subs - set ws, evs @ map Discard ws)"
  by (induction ws arbitrary: subs evs) auto

text \<open>
  C2: in a fan-out pass, whatever the outcomes of the sends, the events are one send
  attempt of the same message to each subscriber of the snapshot, in its order, followed
  by the discards; the registry loses the subscribers whose send failed and no other.
  The order of iteration over the failed set is any that visits exactly its elements.
\<close>

theorem fan_out_sends_then_prunes:
  "set (order (set (filter (\<lambda>w. send w m \<noteq> Sent) snapshot)))
     = set (filter (\<lambda>w. send w m \<noteq> Sent) snapshot) \<Longrightarrow>
   fan_out order send m snapshot subs =
     (subs - set (filter (\<lambda>w. send w m \<noteq> Sent) snapshot),
      map (\<lambda>w. Send_attempt w m) snapshot
        @ map Discard (order (set (filter (\<lambda>w. send w m \<noteq> Sent) snapshot))))"
  by (simp add: fan_out_def send_loop_result discard_loop_result)

theorem fan_out_sends_then_prunes_witness:
  "fan_out (\<lambda>S. filter (\<lambda>w. w \<in> S) [1, 2, 3])
       (\<lambda>w m. if w = (2::nat) then ConnectionClosed else Sent) stream_message_10hz
       [3, 1, 2] {1, 2, 3}
     = ({1, 3},
        [Send_attempt 3 stream_message_10hz, Send_attempt 1 stream_message_10hz,
         Send_attempt 2 stream_message_10hz, Discard 2])"
  using fan_out_sends_then_prunes [of "\<lambda>S. filter (\<lambda>w. w \<in> S) [1, 2, 3]"
          "\<lambda>w m. if w = (2::nat) then ConnectionClosed else Sent" stream_message_10hz
          "[3, 1, 2]" "{1, 2, 3}"]
  by auto

text \<open>
  A cycle with subscribers whose tick returns a sample: the message carries the
  frequency and the size of the registry, the fan-out runs over the whole registry, and
  the cycle sleeps for the stream interval.
\<close>

lemma active_cycle:
  assumes "subscribers st \<noteq> {}"
    and "generate_biofeedback_sample rd now st = (Inr smp, st1)"
    and "m = Stream_message smp (stream_frequency st) (card (subscribers st))"
    and "failed = set (filter (\<lambda>w. send w m \<noteq> Sent) (copy_order (subscribers st)))"
    and "set (failed_order failed) = failed"
  shows "broadcast_cycle rd now copy_order failed_order send st =
           (Sleep (stream_interval st), st1\<lparr>subscribers := subscribers st - failed\<rparr>,
            map (\<lambda>w. Send_attempt w m) (copy_order (subscribers st))
              @ map Discard (failed_order failed))"
proof -
  have k: "stream_frequency st1 = stream_frequency st" "stream_interval st1 = stream_interval st"
    "subscribers st1 = subscribers st"
    using tick_keeps_config [of rd now st] assms(2) by simp_all
  have fo: "fan_out failed_order send m (copy_order (subscribers st)) (subscribers st) =
             (subscribers st - failed,
              map (\<lambda>w. Send_attempt w m) (copy_order (subscribers st))
                @ map Discard (failed_order failed))"
    by (simp add: fan_out_def send_loop_result discard_loop_result assms(4) [symmetric] assms(5)
        del: set_filter)
  show ?thesis
    using assms(1)
    by (simp add: broadcast_cycle_def assms(2) k assms(3) [symmetric] fo)
qed

text \<open>
  A cycle with subscribers in which a baseline sample is due: the TypeError of the tick
  leaves the loop, and nothing is sent.
\<close>

lemma cycle_in_baseline_window:
  assumes "subscribers st \<noteq> {}"
    and "rd (connector st) (sens st) = (Inr v, c1, s1)"
    and "should_collect_baseline_sample s1"
  shows "broadcast_cycle rd now copy_order failed_order send st =
           (Raised TypeError,
            st\<lparr>connector := c1,
               sens := collect_baseline_sample (r_hr v) (r_eda v) (r_hrv v) s1\<rparr>, [])"
  using assms(1)
  by (simp add: broadcast_cycle_def
        tick_in_baseline_window [where rd = rd and st = st, OF assms(2,3)])

end
